theory Spec2Isabelle
  imports Complex_Main "HOL-Library.Multiset"
begin

section \<open>The site configuration of \<open>src/consts.ts\<close>\<close>

text \<open>
  \<^verbatim>\<open>
  export type Site = {
    TITLE: string
    DESCRIPTION: string
    EMAIL: string
    NUM_POSTS_ON_HOMEPAGE: number
    POSTS_PER_PAGE: number
    SITEURL: string
  }

  export type Link = {
    href: string
    label: string
  }
  \<close>
  The two object types are records with the fields of the source, in its order. A
  TypeScript \<open>number\<close> is a double; the two numeric literals of the module (\<open>2\<close> and
  \<open>3\<close>) are exactly representable, so the fields are modelled as \<open>real\<close> and that they
  hold whole numbers is a statement to prove, not a consequence of the field type.
\<close>

record Site =
  TITLE :: string
  DESCRIPTION :: string
  EMAIL :: string
  NUM_POSTS_ON_HOMEPAGE :: real
  POSTS_PER_PAGE :: real
  SITEURL :: string

record Link =
  href :: string
  label :: string

text \<open>
  \<^verbatim>\<open>
  export const SITE: Site = {
    TITLE: 'strf0x's blog,
    DESCRIPTION:
      'blog on my cyber to ai journey',
    EMAIL: 'str.f0x@protonmail.com',
    NUM_POSTS_ON_HOMEPAGE: 2,
    POSTS_PER_PAGE: 3,
    SITEURL: 'https://voluble-figolla-716fdd.netlify.app/blog/',
  }
  \<close>
  The \<open>TITLE\<close> literal of the source has an apostrophe inside single quotes and no closing
  quote; the model takes the text it evidently stands for, \<open>strf0x's blog\<close>, with the
  apostrophe written as the character \<open>0x27\<close>. No statement below depends on the title.
\<close>

definition SITE :: Site where
  "SITE = \<lparr> TITLE = ''strf0x'' @ [CHR 0x27] @ ''s blog'',
            DESCRIPTION = ''blog on my cyber to ai journey'',
            EMAIL = ''str.f0x@protonmail.com'',
            NUM_POSTS_ON_HOMEPAGE = 2,
            POSTS_PER_PAGE = 3,
            SITEURL = ''https://voluble-figolla-716fdd.netlify.app/blog/'' \<rparr>"

text \<open>
  \<^verbatim>\<open>
  export const NAV_LINKS: Link[] = [
    { href: '/blog', label: 'blog' },
    { href: '/authors', label: 'authors' },
    { href: '/about', label: 'about' },
    { href: '/tags', label: 'tags' },
  ]

  export const SOCIAL_LINKS: Link[] = [
    { href: 'https://github.com/strf0x1', label: 'GitHub' },
    { href: 'https://twitter.com/strf0x1', label: 'Twitter' },
    { href: 'str.f0x@protonmail.com', label: 'Email' },
    { href: '/rss.xml', label: 'RSS' },
  ]
  \<close>
  An array literal is a list: order and duplicates are kept.
\<close>

definition NAV_LINKS :: "Link list" where
  "NAV_LINKS =
     [ \<lparr> href = ''/blog'', label = ''blog'' \<rparr>,
       \<lparr> href = ''/authors'', label = ''authors'' \<rparr>,
       \<lparr> href = ''/about'', label = ''about'' \<rparr>,
       \<lparr> href = ''/tags'', label = ''tags'' \<rparr> ]"

definition SOCIAL_LINKS :: "Link list" where
  "SOCIAL_LINKS =
     [ \<lparr> href = ''https://github.com/strf0x1'', label = ''GitHub'' \<rparr>,
       \<lparr> href = ''https://twitter.com/strf0x1'', label = ''Twitter'' \<rparr>,
       \<lparr> href = ''str.f0x@protonmail.com'', label = ''Email'' \<rparr>,
       \<lparr> href = ''/rss.xml'', label = ''RSS'' \<rparr> ]"

section \<open>Consumers of the module\<close>



















section \<open>The syntax of link targets\<close>

text \<open>
  The module gives a target no type beyond \<open>string\<close>. To say what kind of string a target
  is, its syntax is read with the generic syntax of URI references (RFC 3986): character
  classes, the split into scheme, authority, path, query and fragment, and the
  well-formedness of each part.
\<close>

definition is_alpha :: "char \<Rightarrow> bool" where
  "is_alpha c = (c \<in> set ''abcdefghijklmnopqrstuvwxyzABCDEFGHIJKLMNOPQRSTUVWXYZ'')"

definition is_digit :: "char \<Rightarrow> bool" where
  "is_digit c = (c \<in> set ''0123456789'')"

definition is_hexdig :: "char \<Rightarrow> bool" where
  "is_hexdig c = (is_digit c \<or> c \<in> set ''abcdefABCDEF'')"

definition is_unreserved :: "char \<Rightarrow> bool" where
  "is_unreserved c = (is_alpha c \<or> is_digit c \<or> c \<in> set ''-._~'')"

definition is_sub_delim :: "char \<Rightarrow> bool" where
  "is_sub_delim c = (c \<in> set (''!$&'' @ [CHR 0x27] @ ''()*+,;=''))"

definition is_pchar :: "char \<Rightarrow> bool" where
  "is_pchar c = (is_unreserved c \<or> is_sub_delim c \<or> c \<in> set '':@'')"

text \<open>
  Every character of the string is allowed by \<open>ok\<close>, or opens a percent-encoded byte
  (\<open>%\<close> and two hexadecimal digits).
\<close>

fun all_chars :: "(char \<Rightarrow> bool) \<Rightarrow> string \<Rightarrow> bool" where
  "all_chars ok [] = True"
| "all_chars ok (c # cs) =
     (if c = CHR ''%'' then
        (case cs of
           a # b # rest \<Rightarrow> is_hexdig a \<and> is_hexdig b \<and> all_chars ok rest
         | _ \<Rightarrow> False)
      else ok c \<and> all_chars ok cs)"

record url =
  scheme :: "string option"
  authority :: "string option"
  path :: string
  query :: "string option"
  fragment :: "string option"

text \<open>
  The split of a reference into its five parts, as the regular expression of RFC 3986,
  appendix B, does it: a scheme is a non-empty run without \<open>:/?#\<close> followed by a colon,
  an authority is what follows \<open>//\<close> up to the next \<open>/\<close>, \<open>?\<close> or \<open>#\<close>, the path
  runs to the first \<open>?\<close> or \<open>#\<close>, the query to the first \<open>#\<close>.
\<close>

definition split_url :: "string \<Rightarrow> url" where
  "split_url s =
     (let s1 = takeWhile (\<lambda>c. c \<notin> set '':/?#'') s;
          r1 = dropWhile (\<lambda>c. c \<notin> set '':/?#'') s;
          (sch, r2) = (if s1 \<noteq> [] \<and> take 1 r1 = '':'' then (Some s1, drop 1 r1)
                       else (None, s));
          (auth, r3) = (if take 2 r2 = ''//''
                        then (Some (takeWhile (\<lambda>c. c \<notin> set ''/?#'') (drop 2 r2)),
                              dropWhile (\<lambda>c. c \<notin> set ''/?#'') (drop 2 r2))
                        else (None, r2));
          p = takeWhile (\<lambda>c. c \<notin> set ''?#'') r3;
          r4 = dropWhile (\<lambda>c. c \<notin> set ''?#'') r3;
          (q, r5) = (if take 1 r4 = ''?''
                     then (Some (takeWhile (\<lambda>c. c \<noteq> CHR ''#'') (drop 1 r4)),
                           dropWhile (\<lambda>c. c \<noteq> CHR ''#'') (drop 1 r4))
                     else (None, r4));
          f = (if take 1 r5 = ''#'' then Some (drop 1 r5) else None)
      in \<lparr> scheme = sch, authority = auth, path = p, query = q, fragment = f \<rparr>)"

definition valid_scheme :: "string \<Rightarrow> bool" where
  "valid_scheme s =
     (case s of
        [] \<Rightarrow> False
      | c # cs \<Rightarrow>
          is_alpha c \<and> list_all (\<lambda>d. is_alpha d \<or> is_digit d \<or> d \<in> set ''+-.'') cs)"

text \<open>
  An authority is \<open>[userinfo@]host[:port]\<close> with a non-empty registered name as host
  (address literals in brackets are not accepted: the check is narrower than the RFC).
\<close>

definition valid_authority :: "string \<Rightarrow> bool" where
  "valid_authority a =
     (let hostport = (if CHR ''@'' \<in> set a
                      then drop 1 (dropWhile (\<lambda>c. c \<noteq> CHR ''@'') a) else a);
          userinfo = (if CHR ''@'' \<in> set a
                      then takeWhile (\<lambda>c. c \<noteq> CHR ''@'') a else []);
          host = takeWhile (\<lambda>c. c \<noteq> CHR '':'') hostport;
          port = drop 1 (dropWhile (\<lambda>c. c \<noteq> CHR '':'') hostport)
      in all_chars (\<lambda>c. is_unreserved c \<or> is_sub_delim c \<or> c = CHR '':'') userinfo \<and>
         host \<noteq> [] \<and>
         all_chars (\<lambda>c. is_unreserved c \<or> is_sub_delim c) host \<and>
         list_all is_digit port)"

definition valid_path :: "string \<Rightarrow> bool" where
  "valid_path p = all_chars (\<lambda>c. is_pchar c \<or> c = CHR ''/'') p"

definition valid_query :: "string option \<Rightarrow> bool" where
  "valid_query q =
     (case q of
        None \<Rightarrow> True
      | Some t \<Rightarrow> all_chars (\<lambda>c. is_pchar c \<or> c \<in> set ''/?'') t)"

text \<open>
  An absolute URL has a scheme; every part that is present is well formed, and a path
  after an authority is empty or starts with a slash.
\<close>

definition is_absolute_url :: "string \<Rightarrow> bool" where
  "is_absolute_url s =
     (let u = split_url s in
      (case scheme u of
         None \<Rightarrow> False
       | Some sch \<Rightarrow>
           valid_scheme sch \<and>
           (case authority u of
              None \<Rightarrow> True
            | Some a \<Rightarrow> valid_authority a \<and> (path u = [] \<or> take 1 (path u) = ''/'')) \<and>
           valid_path (path u) \<and> valid_query (query u) \<and> valid_query (fragment u)))"

fun split_on :: "char \<Rightarrow> string \<Rightarrow> string list" where
  "split_on d [] = [[]]"
| "split_on d (c # cs) =
     (if c = d then [] # split_on d cs
      else (case split_on d cs of
              [] \<Rightarrow> [[c]]
            | w # ws \<Rightarrow> (c # w) # ws))"

text \<open>
  A bare e-mail address, the form of \<open>SITE.EMAIL\<close>: a local part of letters, digits and
  \<open>._+-\<close>, one \<open>@\<close>, and a domain of at least two dot-separated labels of letters,
  digits and hyphens.
\<close>

definition is_email_address :: "string \<Rightarrow> bool" where
  "is_email_address s =
     (let local_part = takeWhile (\<lambda>c. c \<noteq> CHR ''@'') s;
          rest = dropWhile (\<lambda>c. c \<noteq> CHR ''@'') s;
          labels = split_on CHR ''.'' (drop 1 rest)
      in local_part \<noteq> [] \<and> rest \<noteq> [] \<and>
         list_all (\<lambda>c. is_alpha c \<or> is_digit c \<or> c \<in> set ''._+-'') local_part \<and>
         2 \<le> length labels \<and>
         list_all
           (\<lambda>w. w \<noteq> [] \<and> list_all (\<lambda>c. is_alpha c \<or> is_digit c \<or> c = CHR ''-'') w)
           labels)"

text \<open>
  A relative path has neither scheme nor authority and a non-empty, well-formed path;
  it may start with a slash (relative to the site) or not (relative to the document).
  The character \<open>@\<close> may occur in a path segment, so the syntax of paths alone does not
  tell an address from a path: a string that is an e-mail address is an address, the kind
  of value of the \<open>EMAIL\<close> field, and is not counted as a path.
\<close>

definition is_relative_path :: "string \<Rightarrow> bool" where
  "is_relative_path s =
     (let u = split_url s in
      scheme u = None \<and> authority u = None \<and> path u \<noteq> [] \<and>
      valid_path (path u) \<and> valid_query (query u) \<and> valid_query (fragment u) \<and>
      \<not> is_email_address (path u))"



section \<open>Article front-matter\<close>

text \<open>
  \<^verbatim>\<open>
  ---
  title: A Hacker's Guide to Local LLMs and RAG
  description:  Exploring the power of combining local language models with retrieval augmented generation for hackers.
  date: 2024-01-01
  tags: ['LLM', 'RAG', 'Cybersecurity', 'AI', 'Machine Learning']
  image: './1200x630.png'
  authors: ['strf0x']
  ---
  \<close>
  \<^verbatim>\<open>
  ---
  title: Local LLM's and RAG for Cybersecurity Researchers
  description:  Exploring the power of combining local large language models with retrieval augmented generation for cybersecurity researchers.
  date: 2024-10-25
  tags: ['LLM', 'RAG', 'Cybersecurity', 'AI', 'Machine Learning']
  image: './1200x630.png'
  authors: ['strf0x']
  ---
  \<close>
  The file \<open>src/content/blog/hackers-guide-to-llm-rag-part1/index.mdx\<close> holds two article
  documents, one after the other: the first starts at line 1, the second at line 217,
  and each opens with a front-matter block (lines 1 to 8 and 217 to 224). These are the
  only front-matter blocks among the sources. A block is a YAML mapping; its values are
  plain and quoted scalars, a date and flow sequences. The mapping is kept as an
  association list in the order of the file. The apostrophe of the first title is the
  character U+2019 in the file, three bytes in UTF-8; the apostrophe of the second is
  the ASCII character \<open>0x27\<close>.
\<close>

datatype fm_value = FString string | FDate nat nat nat | FSeq "fm_value list"

type_synonym frontmatter = "(string \<times> fm_value) list"

definition hackers_guide_part1 :: frontmatter where
  "hackers_guide_part1 =
     [ (''title'', FString (''A Hacker'' @ [CHR 0xE2, CHR 0x80, CHR 0x99] @
                            ''s Guide to Local LLMs and RAG'')),
       (''description'', FString (''Exploring the power of combining local language '' @
                                  ''models with retrieval augmented generation for hackers.'')),
       (''date'', FDate 2024 1 1),
       (''tags'', FSeq [FString ''LLM'', FString ''RAG'', FString ''Cybersecurity'',
                        FString ''AI'', FString ''Machine Learning'']),
       (''image'', FString ''./1200x630.png''),
       (''authors'', FSeq [FString ''strf0x'']) ]"

definition local_llms_and_rag :: frontmatter where
  "local_llms_and_rag =
     [ (''title'', FString (''Local LLM'' @ [CHR 0x27] @
                            ''s and RAG for Cybersecurity Researchers'')),
       (''description'', FString (''Exploring the power of combining local large language '' @
                                  ''models with retrieval augmented generation for '' @
                                  ''cybersecurity researchers.'')),
       (''date'', FDate 2024 10 25),
       (''tags'', FSeq [FString ''LLM'', FString ''RAG'', FString ''Cybersecurity'',
                        FString ''AI'', FString ''Machine Learning'']),
       (''image'', FString ''./1200x630.png''),
       (''authors'', FSeq [FString ''strf0x'']) ]"

text \<open>
  The article documents under the sources: the file, the line its front-matter starts
  at, and the front-matter.
\<close>

definition articles :: "(string \<times> nat \<times> frontmatter) list" where
  "articles =
     [ (''src/content/blog/hackers-guide-to-llm-rag-part1/index.mdx'', 1,
        hackers_guide_part1),
       (''src/content/blog/hackers-guide-to-llm-rag-part1/index.mdx'', 217,
        local_llms_and_rag) ]"

text \<open>
  Modelled from the spec: the front-matter schema. The collection schema that the build
  tool checks article documents against is not among the sources; the table of section 6
  of the specification gives it: \<open>title\<close> and \<open>description\<close> strings, \<open>date\<close> a date value,
  \<open>tags\<close> and \<open>authors\<close> ordered sequences of strings, \<open>image\<close> a relative file path, all
  six required; section 8 adds that \<open>tags\<close> and \<open>authors\<close> are non-empty.
\<close>

fun is_string :: "fm_value \<Rightarrow> bool" where
  "is_string (FString s) = True"
| "is_string _ = False"

fun is_date :: "fm_value \<Rightarrow> bool" where
  "is_date (FDate y m d) = (1 \<le> m \<and> m \<le> 12 \<and> 1 \<le> d \<and> d \<le> 31)"
| "is_date _ = False"

fun is_file_path :: "fm_value \<Rightarrow> bool" where
  "is_file_path (FString s) = is_relative_path s"
| "is_file_path _ = False"

fun is_nonempty_string_seq :: "fm_value \<Rightarrow> bool" where
  "is_nonempty_string_seq (FSeq (v # vs)) = list_all is_string (v # vs)"
| "is_nonempty_string_seq _ = False"

definition has_field :: "frontmatter \<Rightarrow> string \<Rightarrow> (fm_value \<Rightarrow> bool) \<Rightarrow> bool" where
  "has_field fm k ok = (case map_of fm k of None \<Rightarrow> False | Some v \<Rightarrow> ok v)"

definition frontmatter_ok :: "frontmatter \<Rightarrow> bool" where
  "frontmatter_ok fm =
     (has_field fm ''title'' is_string \<and>
      has_field fm ''description'' is_string \<and>
      has_field fm ''date'' is_date \<and>
      has_field fm ''tags'' is_nonempty_string_seq \<and>
      has_field fm ''image'' is_file_path \<and>
      has_field fm ''authors'' is_nonempty_string_seq)"

section \<open>Pagination\<close>

text \<open>
  Modelled from the spec: pagination. It belongs to the external renderer, which is not
  among the sources; section 8 of the specification gives its contract: the articles
  are put in publication-date order and cut into consecutive pages of \<open>postsPerPage\<close>
  articles, the last page holding the rest. The specification does not say whether the
  order is oldest first or newest first, so the direction is a parameter. A page size of
  0, which the specification excludes, gives no page.
\<close>

function paginate :: "nat \<Rightarrow> 'a list \<Rightarrow> 'a list list" where
  "paginate n xs = (if n = 0 \<or> xs = [] then [] else take n xs # paginate n (drop n xs))"
  by pat_completeness auto
termination
  by (relation "measure (\<lambda>(n, xs). length xs)") auto

definition by_date :: "('a \<Rightarrow> 'k::linorder) \<Rightarrow> bool \<Rightarrow> 'a list \<Rightarrow> 'a list" where
  "by_date date newest_first xs =
     (if newest_first then rev (sort_key date xs) else sort_key date xs)"

definition paginate_by_date ::
    "('a \<Rightarrow> 'k::linorder) \<Rightarrow> bool \<Rightarrow> nat \<Rightarrow> 'a list \<Rightarrow> 'a list list" where
  "paginate_by_date date newest_first n xs = paginate n (by_date date newest_first xs)"

text \<open>The page size the renderer takes from the configuration.\<close>

definition page_size :: "Site \<Rightarrow> nat" where
  "page_size s = nat \<lfloor>POSTS_PER_PAGE s\<rfloor>"

section \<open>Properties of the menus\<close>

text \<open>
  C8. Both menu sequences, \<open>NAV_LINKS\<close> (the primary navigation) and \<open>SOCIAL_LINKS\<close>
  (the social links), are non-empty in the configuration shipped in the repository.
\<close>

theorem menus_nonempty: "NAV_LINKS \<noteq> [] \<and> SOCIAL_LINKS \<noteq> []"
  by (simp add: NAV_LINKS_def SOCIAL_LINKS_def)

text \<open>
  C9. \<open>NAV_LINKS\<close> is exactly the ordered sequence of four (target, label) pairs
  (/blog, blog), (/authors, authors), (/about, about), (/tags, tags), and \<open>SOCIAL_LINKS\<close>
  is exactly the ordered sequence of four pairs (https://github.com/strf0x1, GitHub),
  (https://twitter.com/strf0x1, Twitter), (str.f0x@protonmail.com, Email), (/rss.xml, RSS).
\<close>

theorem menus_exact:
  "length NAV_LINKS = 4 \<and>
   map (\<lambda>l. (href l, label l)) NAV_LINKS =
     [(''/blog'', ''blog''), (''/authors'', ''authors''),
      (''/about'', ''about''), (''/tags'', ''tags'')] \<and>
   length SOCIAL_LINKS = 4 \<and>
   map (\<lambda>l. (href l, label l)) SOCIAL_LINKS =
     [(''https://github.com/strf0x1'', ''GitHub''),
      (''https://twitter.com/strf0x1'', ''Twitter''),
      (''str.f0x@protonmail.com'', ''Email''),
      (''/rss.xml'', ''RSS'')]"
  by (simp add: NAV_LINKS_def SOCIAL_LINKS_def)

text \<open>
  C2. Every entry of \<open>NAV_LINKS\<close> and every entry of \<open>SOCIAL_LINKS\<close> has a non-empty
  label and a non-empty target string.
\<close>

theorem links_nonempty_fields:
  "\<forall>l \<in> set NAV_LINKS \<union> set SOCIAL_LINKS. label l \<noteq> [] \<and> href l \<noteq> []"
  by (simp add: NAV_LINKS_def SOCIAL_LINKS_def)

theorem links_nonempty_fields_witness:
  "\<lparr> href = ''str.f0x@protonmail.com'', label = ''Email'' \<rparr> \<in> set NAV_LINKS \<union> set SOCIAL_LINKS \<and>
   label \<lparr> href = ''str.f0x@protonmail.com'', label = ''Email'' \<rparr> \<noteq> [] \<and>
   href \<lparr> href = ''str.f0x@protonmail.com'', label = ''Email'' \<rparr> \<noteq> []"
proof -
  have m: "\<lparr> href = ''str.f0x@protonmail.com'', label = ''Email'' \<rparr>
             \<in> set NAV_LINKS \<union> set SOCIAL_LINKS"
    by (simp add: SOCIAL_LINKS_def)
  from links_nonempty_fields [THEN bspec, OF m] m show ?thesis by simp
qed

text \<open>
  An entry of a list is determined by a field whose values are pairwise distinct along
  the list.
\<close>

lemma distinct_field_identifies:
  assumes "distinct (map f xs)" and "a \<in> set xs" and "b \<in> set xs" and "f a = f b"
  shows "a = b"
proof -
  from assms(1) have "inj_on f (set xs)" by (simp add: distinct_map)
  with assms(2-4) show ?thesis by (auto dest: inj_onD)
qed

text \<open>
  C10. Within each menu (\<open>NAV_LINKS\<close> and \<open>SOCIAL_LINKS\<close> separately) the labels are
  pairwise distinct and the targets are pairwise distinct, so an entry of a menu is
  identified by its label alone and by its target alone.
\<close>

theorem menu_labels_targets_distinct:
  "distinct (map label NAV_LINKS) \<and> distinct (map href NAV_LINKS) \<and>
   distinct (map label SOCIAL_LINKS) \<and> distinct (map href SOCIAL_LINKS) \<and>
   (\<forall>a \<in> set NAV_LINKS. \<forall>b \<in> set NAV_LINKS.
      label a = label b \<or> href a = href b \<longrightarrow> a = b) \<and>
   (\<forall>a \<in> set SOCIAL_LINKS. \<forall>b \<in> set SOCIAL_LINKS.
      label a = label b \<or> href a = href b \<longrightarrow> a = b)"
proof -
  have nl: "distinct (map label NAV_LINKS)" by (simp add: NAV_LINKS_def)
  have nh: "distinct (map href NAV_LINKS)" by (simp add: NAV_LINKS_def)
  have sl: "distinct (map label SOCIAL_LINKS)" by (simp add: SOCIAL_LINKS_def)
  have sh: "distinct (map href SOCIAL_LINKS)" by (simp add: SOCIAL_LINKS_def)
  have n: "\<forall>a \<in> set NAV_LINKS. \<forall>b \<in> set NAV_LINKS.
             label a = label b \<or> href a = href b \<longrightarrow> a = b"
    using distinct_field_identifies [OF nl] distinct_field_identifies [OF nh] by blast
  have s: "\<forall>a \<in> set SOCIAL_LINKS. \<forall>b \<in> set SOCIAL_LINKS.
             label a = label b \<or> href a = href b \<longrightarrow> a = b"
    using distinct_field_identifies [OF sl] distinct_field_identifies [OF sh] by blast
  from nl nh sl sh n s show ?thesis by blast
qed

theorem menu_labels_targets_distinct_witness:
  "SOCIAL_LINKS ! 2 \<in> set SOCIAL_LINKS \<and>
   \<lparr> href = ''str.f0x@protonmail.com'', label = ''Email'' \<rparr> \<in> set SOCIAL_LINKS \<and>
   href (SOCIAL_LINKS ! 2) = ''str.f0x@protonmail.com'' \<and>
   SOCIAL_LINKS ! 2 = \<lparr> href = ''str.f0x@protonmail.com'', label = ''Email'' \<rparr>"
proof -
  let ?e = "\<lparr> href = ''str.f0x@protonmail.com'', label = ''Email'' \<rparr>"
  have a: "SOCIAL_LINKS ! 2 \<in> set SOCIAL_LINKS" by (simp add: SOCIAL_LINKS_def)
  have b: "?e \<in> set SOCIAL_LINKS" by (simp add: SOCIAL_LINKS_def)
  have h: "href (SOCIAL_LINKS ! 2) = ''str.f0x@protonmail.com''"
    by (simp add: SOCIAL_LINKS_def)
  from menu_labels_targets_distinct a b h
  have "SOCIAL_LINKS ! 2 = ?e" by (metis Link.select_convs(1))
  with a b h show ?thesis by blast
qed

section \<open>Properties of the site record\<close>

text \<open>
  C3. In the compiled \<open>SITE\<close>, the fields \<open>NUM_POSTS_ON_HOMEPAGE\<close> and \<open>POSTS_PER_PAGE\<close>
  are positive integers: both are whole numbers and both are at least 1.
\<close>

theorem posts_counts_positive:
  "NUM_POSTS_ON_HOMEPAGE SITE \<in> \<int> \<and> 1 \<le> NUM_POSTS_ON_HOMEPAGE SITE \<and>
   POSTS_PER_PAGE SITE \<in> \<int> \<and> 1 \<le> POSTS_PER_PAGE SITE"
  by (simp add: SITE_def)

section \<open>The kinds of link targets\<close>

lemma nav_targets_paths:
  "is_relative_path ''/blog''" "is_relative_path ''/authors''"
  "is_relative_path ''/about''" "is_relative_path ''/tags''"
  by code_simp+

lemma social_targets_kinds:
  "is_absolute_url ''https://github.com/strf0x1''"
  "is_absolute_url ''https://twitter.com/strf0x1''"
  "is_email_address ''str.f0x@protonmail.com''"
  "is_relative_path ''/rss.xml''"
  by code_simp+

lemma contact_address_no_path: "\<not> is_relative_path ''str.f0x@protonmail.com''"
  by code_simp

lemma contact_address_no_url: "\<not> is_absolute_url ''str.f0x@protonmail.com''"
  by code_simp

text \<open>
  C1 as stated, that the target of every entry of the two menus is a relative path or an
  absolute URL, fails at the third entry of \<open>SOCIAL_LINKS\<close>: its target is the bare
  address \<open>str.f0x@protonmail.com\<close>, with no scheme (it is not \<open>mailto:\<dots>\<close>) and not a
  path.
\<close>

theorem email_target_counterexample:
  "SOCIAL_LINKS ! 2 \<in> set SOCIAL_LINKS \<and>
   SOCIAL_LINKS ! 2 = \<lparr> href = ''str.f0x@protonmail.com'', label = ''Email'' \<rparr> \<and>
   \<not> (is_relative_path (href (SOCIAL_LINKS ! 2)) \<or> is_absolute_url (href (SOCIAL_LINKS ! 2)))"
  by (simp add: SOCIAL_LINKS_def contact_address_no_path contact_address_no_url)

text \<open>
  C1, amended. The target of every entry of \<open>NAV_LINKS\<close> and \<open>SOCIAL_LINKS\<close> is a relative
  path, an absolute URL, or a bare e-mail address equal to the contact address
  \<open>SITE.EMAIL\<close>.
\<close>

theorem targets_path_url_or_contact_address:
  "\<forall>l \<in> set NAV_LINKS \<union> set SOCIAL_LINKS.
     is_relative_path (href l) \<or> is_absolute_url (href l) \<or>
     (is_email_address (href l) \<and> href l = EMAIL SITE)"
  by (simp add: NAV_LINKS_def SOCIAL_LINKS_def SITE_def nav_targets_paths social_targets_kinds)

theorem targets_path_url_or_contact_address_witness:
  "\<lparr> href = ''str.f0x@protonmail.com'', label = ''Email'' \<rparr> \<in> set NAV_LINKS \<union> set SOCIAL_LINKS \<and>
   is_email_address (href \<lparr> href = ''str.f0x@protonmail.com'', label = ''Email'' \<rparr>) \<and>
   href \<lparr> href = ''str.f0x@protonmail.com'', label = ''Email'' \<rparr> = EMAIL SITE"
proof -
  let ?e = "\<lparr> href = ''str.f0x@protonmail.com'', label = ''Email'' \<rparr>"
  have m: "?e \<in> set NAV_LINKS \<union> set SOCIAL_LINKS"
    by (simp add: SOCIAL_LINKS_def)
  have "is_relative_path (href ?e) \<or> is_absolute_url (href ?e) \<or>
        (is_email_address (href ?e) \<and> href ?e = EMAIL SITE)"
    by (rule targets_path_url_or_contact_address [THEN bspec, OF m])
  then have "is_email_address (href ?e) \<and> href ?e = EMAIL SITE"
    by (simp add: contact_address_no_path contact_address_no_url SITE_def)
  with m show ?thesis by (rule conjI)
qed

section \<open>The canonical URL\<close>











section \<open>Front-matter of the article documents\<close>

lemma image_is_path: "is_relative_path ''./1200x630.png''"
  by code_simp

lemma hackers_guide_part1_ok: "frontmatter_ok hackers_guide_part1"
  by (simp add: frontmatter_ok_def has_field_def hackers_guide_part1_def image_is_path)

lemma local_llms_and_rag_ok: "frontmatter_ok local_llms_and_rag"
  by (simp add: frontmatter_ok_def has_field_def local_llms_and_rag_def image_is_path)

text \<open>
  C5. For every article document, the front-matter has the six required fields (title,
  description, date, tags, image, authors) with values of the right types, and its tags
  and authors sequences are non-empty.
\<close>

theorem articles_frontmatter_ok:
  "\<forall>a \<in> set articles. frontmatter_ok (snd (snd a))"
  by (simp add: articles_def hackers_guide_part1_ok local_llms_and_rag_ok)

theorem articles_frontmatter_ok_witness:
  "(''src/content/blog/hackers-guide-to-llm-rag-part1/index.mdx'', 217, local_llms_and_rag)
     \<in> set articles \<and>
   length articles = 2 \<and>
   frontmatter_ok local_llms_and_rag"
proof -
  let ?a = "(''src/content/blog/hackers-guide-to-llm-rag-part1/index.mdx'', 217::nat,
             local_llms_and_rag)"
  have m: "?a \<in> set articles" by (simp add: articles_def)
  have n: "length articles = 2" by (simp add: articles_def)
  have "frontmatter_ok (snd (snd ?a))"
    by (rule articles_frontmatter_ok [THEN bspec, OF m])
  then have "frontmatter_ok local_llms_and_rag" by simp
  with m n show ?thesis by (intro conjI)
qed

section \<open>Pagination with the configured page size\<close>

declare paginate.simps [simp del]

lemma paginate_Nil: "paginate n [] = []"
  by (simp add: paginate.simps)

lemma paginate_step:
  "0 < n \<Longrightarrow> xs \<noteq> [] \<Longrightarrow> paginate n xs = take n xs # paginate n (drop n xs)"
  by (subst paginate.simps) simp

lemma concat_paginate: "0 < n \<Longrightarrow> concat (paginate n xs) = xs"
proof (induction n xs rule: paginate.induct)
  case (1 n xs)
  show ?case
  proof (cases "xs = []")
    case True
    then show ?thesis by (simp add: paginate_Nil)
  next
    case False
    with 1 show ?thesis by (simp add: paginate_step)
  qed
qed

lemma page_sizes:
  "0 < n \<Longrightarrow>
   map length (paginate n xs) =
     replicate (length xs div n) n @ (if length xs mod n = 0 then [] else [length xs mod n])"
proof (induction n xs rule: paginate.induct)
  case (1 n xs)
  show ?case
  proof (cases "xs = []")
    case True
    then show ?thesis by (simp add: paginate_Nil)
  next
    case False
    note ne = this
    show ?thesis
    proof (cases "n \<le> length xs")
      case True
      with 1 ne have IH: "map length (paginate n (drop n xs)) =
          replicate ((length xs - n) div n) n @
          (if (length xs - n) mod n = 0 then [] else [(length xs - n) mod n])"
        by simp
      from True 1(2) have d: "length xs div n = Suc ((length xs - n) div n)"
        by (simp add: le_div_geq)
      from True have m: "(length xs - n) mod n = length xs mod n"
        by (simp add: le_mod_geq)
      from True 1(2) ne IH d m show ?thesis
        by (simp add: paginate_step)
    next
      case False
      with 1(2) ne show ?thesis
        by (simp add: paginate_step paginate_Nil)
    qed
  qed
qed

lemma page_size_SITE: "page_size SITE = 3"
  by (simp add: page_size_def SITE_def)

lemma mset_by_date: "mset (by_date date nf xs) = mset xs"
  by (simp add: by_date_def)



lemma rep: "replicate 2 (3::nat) = [3, 3]"
  by (simp add: numeral_2_eq_2)

lemma seven_sizes:
  assumes "length ys = 7"
  shows "map length (paginate 3 ys) = [3, 3, 1]"
proof -
  have "map length (paginate 3 ys) =
          replicate (length ys div 3) 3 @ (if length ys mod 3 = 0 then [] else [length ys mod 3])"
    by (rule page_sizes) simp
  also have "\<dots> = replicate 2 3 @ [1]"
    by (simp add: assms)
  also have "\<dots> = [3, 3, 1]"
    by (simp only: rep append.simps)
  finally show ?thesis .
qed




lemma length_by_date: "length (by_date date nf xs) = length xs"
  by (simp add: by_date_def)

lemma sorted_oldest_first: "sorted (map date (by_date date False xs))"
  by (simp add: by_date_def)

lemma sorted_newest_first: "sorted (rev (map date (by_date date True xs)))"
  by (simp add: by_date_def rev_map)

text \<open>
  C6. With the page size of the configuration, \<open>SITE.POSTS_PER_PAGE = 3\<close>, any seven
  articles are put on three pages of 3, 3 and 1 articles, and the pages, read in order,
  are the articles in publication-date order (in either direction).
\<close>

theorem seven_articles_three_pages:
  assumes "length arts = 7"
  shows "map length (paginate_by_date date nf (page_size SITE) arts) = [3, 3, 1] \<and>
         concat (paginate_by_date date nf (page_size SITE) arts) = by_date date nf arts \<and>
         mset (by_date date nf arts) = mset arts \<and>
         sorted (map date (by_date date False arts)) \<and>
         sorted (rev (map date (by_date date True arts)))"
proof -
  have "length (by_date date nf arts) = 7"
    using assms by (simp only: length_by_date)
  then have sizes: "map length (paginate 3 (by_date date nf arts)) = [3, 3, 1]"
    by (rule seven_sizes)
  have whole: "concat (paginate 3 (by_date date nf arts)) = by_date date nf arts"
    by (rule concat_paginate) simp
  show ?thesis
    unfolding paginate_by_date_def page_size_SITE
    using sizes whole mset_by_date [of date nf arts]
      sorted_oldest_first [of date arts] sorted_newest_first [of date arts]
    by (intro conjI)
qed

lemma seven_pages_concrete:
  "paginate_by_date (\<lambda>d. d) False (page_size SITE) [5, 3, 9, 1, 7, 2, 8 :: nat] =
     [[1, 2, 3], [5, 7, 8], [9]]"
  by code_simp

theorem seven_articles_three_pages_witness:
  "length [5, 3, 9, 1, 7, 2, 8 :: nat] = 7 \<and>
   map length (paginate_by_date (\<lambda>d. d) False (page_size SITE) [5, 3, 9, 1, 7, 2, 8 :: nat])
     = [3, 3, 1] \<and>
   paginate_by_date (\<lambda>d. d) False (page_size SITE) [5, 3, 9, 1, 7, 2, 8 :: nat] =
     [[1, 2, 3], [5, 7, 8], [9]]"
proof -
  have h: "length [5, 3, 9, 1, 7, 2, 8 :: nat] = 7" by simp
  from seven_articles_three_pages [OF h, of "\<lambda>d. d" False]
  have "map length (paginate_by_date (\<lambda>d. d) False (page_size SITE) [5, 3, 9, 1, 7, 2, 8 :: nat])
          = [3, 3, 1]"
    by (rule conjunct1)
  with h seven_pages_concrete show ?thesis by (intro conjI)
qed

section \<open>Reads and writes of the configuration\<close>







end
